theory Spec2Isabelle
  imports
    Complex_Main
    "HOL-Library.Char_ord"
    "HOL-Library.List_Lexorder"
    "HOL-Library.Product_Lexorder"
begin

section \<open>The factor engine of GoldLens (src/factor\_engine.py)\<close>

text \<open>
  The engine is a pipeline over pandas tables: events are scored, folded into one row per
  (date, factor), expanded to a dense daily grid, joined with the gold price and turned into
  a rolling, per-day normalised influence curve.

  Conventions of the embedding.
  \<^item> A Python float is a rational number (\<^typ>\<open>rat\<close>): sums, products and quotients are
    exact, so the rounding error of binary64 arithmetic is outside the model. Where the
    exact value of a product lies at a tie of \<open>round\<close> (or within a rounding error of
    one), the code's result can differ from the model's by one unit of the last rounded
    digit; the values stated below are those of the exact arithmetic. For the impact
    score, whose digits are rounded, the error of the double arithmetic is a parameter of
    a second definition (\<open>calculate_event_impact_score_double\<close>). A missing value (NaN /
    None in a float column) is \<open>None\<close> of an option type.
  \<^item> A Python \<open>date\<close> (the date of an event) is the number of its day (\<^typ>\<open>int\<close>, days
    since 1970-01-01). A \<open>datetime\<close> or pandas Timestamp is a record of its time zone and
    its wall-clock time (see \<open>timestamp\<close> below).
  \<^item> The date column of a table holds labels of one type \<open>'d\<close>: day numbers in the daily
    table, timestamps in the dense series. The alignment and the influence curve only
    compare and sort these labels, and are stated for any label type.
  \<^item> A DataFrame is the list of its rows, in row order; an empty DataFrame is \<open>[]\<close>.
  \<^item> A dict read with \<open>.get(key, default)\<close> is a record whose fields are options:
    \<open>None\<close> is the absent key.
  \<^item> An exception that the source does not catch is \<open>Inl\<close> of a sum type.
\<close>

subsection \<open>Numbers\<close>

text \<open>\<open>round(x, ndigits)\<close>: to the nearest multiple of \<open>10 ^ (- ndigits)\<close>, a tie to
  the even neighbour.\<close>

definition round_half_even :: "rat \<Rightarrow> int" where
  "round_half_even x =
     (let f = \<lfloor>x\<rfloor>; d = x - of_int f
      in if d < 1 / 2 then f
         else if 1 / 2 < d then f + 1
         else if even f then f else f + 1)"

definition py_round :: "rat \<Rightarrow> nat \<Rightarrow> rat" where
  "py_round x ndigits = of_int (round_half_even (x * 10 ^ ndigits)) / 10 ^ ndigits"

text \<open>\<open>max(first :: rest)\<close> as Python computes it: a left-to-right scan that keeps the
  current maximum unless a strictly larger element comes.\<close>

definition py_max :: "rat \<Rightarrow> rat list \<Rightarrow> rat" where
  "py_max first rest = foldl (\<lambda>m v. if m < v then v else m) first rest"

text \<open>\<open>np.mean\<close> of a non-empty list.\<close>

definition np_mean :: "rat list \<Rightarrow> rat" where
  "np_mean xs = sum_list xs / of_nat (length xs)"

text \<open>\<open>d.get(key, default)\<close>, the value at the key being \<open>v\<close> (\<open>None\<close> when the
  key is absent).\<close>

definition get_or :: "'a option \<Rightarrow> 'a \<Rightarrow> 'a" where
  "get_or v dflt = (case v of None \<Rightarrow> dflt | Some x \<Rightarrow> x)"

text \<open>\<open>Series.unique()\<close>: the distinct values in order of first appearance.\<close>

fun unique :: "'a list \<Rightarrow> 'a list" where
  "unique [] = []"
| "unique (x # xs) = x # filter (\<lambda>y. y \<noteq> x) (unique xs)"

subsection \<open>Data model\<close>

text \<open>One entry of \<open>event['factor_tags']\<close>.\<close>

record factor_tag =
  factor :: "string option"
  polarity :: "string option"
  strength :: "rat option"
  confidence :: "rat option"

text \<open>A structured event, as far as the engine reads it.\<close>

record event =
  event_type :: "string option"
  timestamp_utc :: "string option"
  factor_tags :: "factor_tag list option"
  event_id :: "string option"

text \<open>\<open>self.config\<close>: the taxonomy loaded from factor\_config.json; the engine's scoring
  reads only \<open>config['event_types'][t]['default_importance']\<close>.\<close>

record event_type_entry =
  default_importance :: "rat option"

record config =
  event_types :: "string \<Rightarrow> event_type_entry option"

text \<open>What \<open>pd.to_datetime(timestamp).date()\<close> does with a string: it raises (the source
  catches that and skips the event), it yields the missing date NaT (for the empty string,
  with which no exception is raised), or it yields a calendar day. The parser belongs to
  pandas and is a parameter of the aggregation.\<close>

datatype parsed_date = Raises | NaT | Day int

text \<open>One element of the list \<open>records\<close> built by the aggregation loop; a NaT date is
  \<open>None\<close>.\<close>

record tag_record =
  r_date :: "int option"
  r_factor_code :: string
  r_signed_score :: rat
  r_abs_score :: rat
  r_event_id :: string

text \<open>A \<open>datetime\<close> or pandas Timestamp: its time zone (\<open>None\<close> for a tz-naive value, else
  the name of the zone) and its wall-clock time in that zone, in days since
  1970-01-01 00:00, so that the integer part is the calendar day and the fractional part
  the time of day (midnight is an integer). Two timestamps are the same label when zone
  and wall-clock time agree; a tz-naive label never equals a tz-aware one. Wall-clock
  times that a zone skips or repeats at a change of its offset are not modelled.\<close>

record timestamp =
  tz :: "string option"
  wall :: rat

text \<open>A row of the daily factor table and of the dense series
  (columns date, factor\_code, score, intensity, event\_count).\<close>

record 'd factor_row =
  date :: 'd
  factor_code :: string
  score :: rat
  intensity :: rat
  event_count :: int

text \<open>A row of the price table (columns date, gold\_price), and the value of a float
  cell that may be missing or infinite.\<close>

record 'd price_row =
  p_date :: 'd
  p_gold_price :: "rat option"

datatype fvalue = NaN | PosInf | NegInf | Finite rat

text \<open>A row after alignment: the factor row with gold\_price and price\_change\_pct.\<close>

record 'd aligned_row = "'d factor_row" +
  gold_price :: "rat option"
  price_change_pct :: fvalue

text \<open>A row of the influence curve (the six columns the source selects).\<close>

record 'd influence_row =
  ic_date :: 'd
  ic_factor_code :: string
  normalized_influence :: rat
  rolling_intensity :: rat
  ic_score :: rat
  ic_gold_price :: "rat option"

datatype error = ValueError | TypeError

subsection \<open>calculate\_event\_impact\_score\<close>

definition calculate_event_impact_score :: "config \<Rightarrow> event \<Rightarrow> rat" where
  "calculate_event_impact_score cfg e =
     (let etype = get_or (event_type e) ''UNKNOWN'';
          type_importance =
            get_or (default_importance
                      (get_or (event_types cfg etype) \<lparr> default_importance = None \<rparr>)) (1 / 2);
          tags = get_or (factor_tags e) [];
          max_strength =
            (case map (\<lambda>tag. get_or (strength tag) 0) tags of
               [] \<Rightarrow> 1 / 2
             | s # ss \<Rightarrow> py_max s ss);
          avg_confidence =
            (if tags \<noteq> []
             then np_mean (map (\<lambda>tag. get_or (confidence tag) 0) tags)
             else 1 / 2);
          market_volatility_multiplier = 1;
          impact_score =
            type_importance * max_strength * avg_confidence * market_volatility_multiplier
      in py_round impact_score 3)"

text \<open>The same function with the error of the double arithmetic made explicit. The code
  computes in doubles: the number whose digits \<open>round\<close> cuts differs from the exact
  product of the exact operands by the binary representation of the operands, by the
  rounding of each operation (those of \<open>np.mean\<close> included) and, where \<open>round\<close> scales
  by 1000 in doubles, by the rounding of that scaling. \<open>err\<close> is the sum of these
  differences, whatever it is: the statements about this function hold for every
  \<open>err\<close>. The result is a multiple of 0.001 (the double nearest to \<open>k / 1000\<close> is
  identified with \<open>k / 1000\<close>). With \<open>err = 0\<close> this is the function above.\<close>

definition calculate_event_impact_score_double :: "rat \<Rightarrow> config \<Rightarrow> event \<Rightarrow> rat" where
  "calculate_event_impact_score_double err cfg e =
     (let etype = get_or (event_type e) ''UNKNOWN'';
          type_importance =
            get_or (default_importance
                      (get_or (event_types cfg etype) \<lparr> default_importance = None \<rparr>)) (1 / 2);
          tags = get_or (factor_tags e) [];
          max_strength =
            (case map (\<lambda>tag. get_or (strength tag) 0) tags of
               [] \<Rightarrow> 1 / 2
             | s # ss \<Rightarrow> py_max s ss);
          avg_confidence =
            (if tags \<noteq> []
             then np_mean (map (\<lambda>tag. get_or (confidence tag) 0) tags)
             else 1 / 2);
          market_volatility_multiplier = 1;
          impact_score =
            type_importance * max_strength * avg_confidence * market_volatility_multiplier
              + err
      in py_round impact_score 3)"

subsection \<open>aggregate\_factor\_scores\_by\_day\<close>

text \<open>The body of the loop over the tags of one event: the record appended for a tag.\<close>

definition tag_to_record :: "int option \<Rightarrow> rat \<Rightarrow> event \<Rightarrow> factor_tag \<Rightarrow> tag_record" where
  "tag_to_record event_date impact_score e tag =
     (let fcode = get_or (factor tag) '''';
          pol = get_or (polarity tag) ''0'';
          str = get_or (strength tag) 0;
          signed_score =
            (if pol = ''+'' then impact_score * str
             else if pol = ''-'' then - impact_score * str
             else 0)
      in \<lparr> r_date = event_date, r_factor_code = fcode, r_signed_score = signed_score,
           r_abs_score = \<bar>signed_score\<bar>,
           r_event_id = get_or (event_id e) '''' \<rparr>)"

text \<open>The body of the loop over events: the records one event appends. An event whose
  timestamp makes the parser raise is skipped by \<open>continue\<close>.\<close>

definition event_records :: "(string \<Rightarrow> parsed_date) \<Rightarrow> config \<Rightarrow> event \<Rightarrow> tag_record list" where
  "event_records to_date cfg e =
     (let timestamp = get_or (timestamp_utc e) ''''
      in case to_date timestamp of
           Raises \<Rightarrow> []
         | NaT \<Rightarrow>
             map (tag_to_record None (calculate_event_impact_score cfg e) e)
               (get_or (factor_tags e) [])
         | Day d \<Rightarrow>
             map (tag_to_record (Some d) (calculate_event_impact_score cfg e) e)
               (get_or (factor_tags e) []))"

text \<open>\<open>df.groupby(['date', 'factor_code']).agg(sum, sum, count).reset_index()\<close>: rows
  with a missing date are dropped (groupby drops missing keys), there is one output row
  per distinct key, the keys are in ascending order, and \<open>count\<close> counts the rows of the
  group (event\_id is never missing in a record).\<close>

definition group_keys :: "tag_record list \<Rightarrow> (int \<times> string) list" where
  "group_keys records =
     sort (remdups (concat (map (\<lambda>r. case r_date r of None \<Rightarrow> []
                                     | Some d \<Rightarrow> [(d, r_factor_code r)]) records)))"

definition group_of :: "tag_record list \<Rightarrow> int \<times> string \<Rightarrow> tag_record list" where
  "group_of records k =
     filter (\<lambda>r. r_date r = Some (fst k) \<and> r_factor_code r = snd k) records"

definition groupby_agg :: "tag_record list \<Rightarrow> int factor_row list" where
  "groupby_agg records =
     map (\<lambda>k. \<lparr> date = fst k, factor_code = snd k,
               score = sum_list (map r_signed_score (group_of records k)),
               intensity = sum_list (map r_abs_score (group_of records k)),
               event_count = int (length (group_of records k)) \<rparr>)
       (group_keys records)"

definition aggregate_factor_scores_by_day ::
    "(string \<Rightarrow> parsed_date) \<Rightarrow> config \<Rightarrow> event list \<Rightarrow> int factor_row list" where
  "aggregate_factor_scores_by_day to_date cfg events =
     (let records = concat (map (event_records to_date cfg) events)
      in if records = [] then [] else groupby_agg records)"

subsection \<open>create\_factor\_timeseries\<close>

text \<open>\<open>pd.to_datetime\<close> of a Python date (the date column of the daily table): the
  tz-naive timestamp of its midnight.\<close>

definition midnight :: "int \<Rightarrow> timestamp" where
  "midnight d = \<lparr> tz = None, wall = of_int d \<rparr>"

text \<open>\<open>pd.date_range(start=start_date, end=end_date, freq='D')\<close>. Two ends that are not
  of the same zone (or not both tz-naive) raise TypeError. The labels are \<open>start_date\<close>
  and its successors in steps of one day on the wall clock, as long as they are not after
  \<open>end_date\<close>: all keep the zone and the time of day of \<open>start_date\<close>, and there is
  none when \<open>end_date\<close> is before \<open>start_date\<close>.\<close>

definition date_range :: "timestamp \<Rightarrow> timestamp \<Rightarrow> error + timestamp list" where
  "date_range start_date end_date =
     (if tz start_date \<noteq> tz end_date then Inl TypeError
      else Inr (map (\<lambda>k. \<lparr> tz = tz start_date, wall = wall start_date + of_int k \<rparr>)
                  [0..\<lfloor>wall end_date - wall start_date\<rfloor>]))"

text \<open>\<open>factor_data['date'] = pd.to_datetime(factor_data['date'])\<close>, then
  \<open>factor_data.set_index('date')[numeric_cols].reindex(date_range, fill_value=0)\<close>
  followed by the factor\_code column. Reindexing raises ValueError when the index holds a
  date twice. Otherwise every label of the range gives one row: with the values of the
  row whose midnight is that very label, or with zeros when there is none (so for every
  label that is tz-aware or carries a time of day).\<close>

definition reindex_factor ::
    "int factor_row list \<Rightarrow> timestamp list \<Rightarrow> string \<Rightarrow> error + timestamp factor_row list" where
  "reindex_factor factor_data labels f =
     (if \<not> distinct (map date factor_data) then Inl ValueError
      else Inr (map (\<lambda>l. case find (\<lambda>r. midnight (date r) = l) factor_data of
                            Some r \<Rightarrow> \<lparr> date = l, factor_code = f, score = score r,
                                       intensity = intensity r, event_count = event_count r \<rparr>
                          | None \<Rightarrow> \<lparr> date = l, factor_code = f, score = 0,
                                     intensity = 0, event_count = 0 \<rparr>)
                  labels))"

text \<open>The loop over \<open>all_factors\<close> and the final \<open>pd.concat\<close>.\<close>

fun full_series ::
    "int factor_row list \<Rightarrow> timestamp list \<Rightarrow> string list \<Rightarrow> error + timestamp factor_row list" where
  "full_series daily_factors labels [] = Inr []"
| "full_series daily_factors labels (f # fs) =
     (case reindex_factor (filter (\<lambda>r. factor_code r = f) daily_factors) labels f of
        Inl err \<Rightarrow> Inl err
      | Inr rows \<Rightarrow>
          (case full_series daily_factors labels fs of
             Inl err \<Rightarrow> Inl err
           | Inr rest \<Rightarrow> Inr (rows @ rest)))"

definition create_factor_timeseries ::
    "int factor_row list \<Rightarrow> timestamp \<Rightarrow> timestamp \<Rightarrow> error + timestamp factor_row list" where
  "create_factor_timeseries daily_factors start_date end_date =
     (if daily_factors = [] then Inr []
      else case date_range start_date end_date of
             Inl err \<Rightarrow> Inl err
           | Inr labels \<Rightarrow>
               full_series daily_factors labels (unique (map factor_code daily_factors)))"

subsection \<open>align\_with\_price\<close>

text \<open>\<open>factor_ts.merge(price_data[['date', 'gold_price']], on='date', how='left')\<close>:
  the rows of the left table in their order, each once per matching price row, or once
  with a missing price when no price row has its date.\<close>

definition with_price :: "'d factor_row \<Rightarrow> rat option \<Rightarrow> 'd aligned_row" where
  "with_price r p = factor_row.extend r
     (aligned_row.fields p NaN)"

definition merge_left :: "'d factor_row list \<Rightarrow> 'd price_row list \<Rightarrow> 'd aligned_row list" where
  "merge_left factor_ts price_data =
     concat (map (\<lambda>r. case filter (\<lambda>p. p_date p = date r) price_data of
                         [] \<Rightarrow> [with_price r None]
                       | ms \<Rightarrow> map (\<lambda>p. with_price r (p_gold_price p)) ms)
               factor_ts)"

text \<open>\<open>Series.ffill()\<close> on a column: a missing cell takes the last value seen above it
  in the table.\<close>

fun ffill :: "'a option \<Rightarrow> 'a option list \<Rightarrow> 'a option list" where
  "ffill last_seen [] = []"
| "ffill last_seen (None # xs) = last_seen # ffill last_seen xs"
| "ffill last_seen (Some v # xs) = Some v # ffill (Some v) xs"

definition ffill_gold_price :: "'d aligned_row list \<Rightarrow> 'd aligned_row list" where
  "ffill_gold_price rows =
     map (\<lambda>(r, p). r\<lparr>gold_price := p\<rparr>) (zip rows (ffill None (map gold_price rows)))"

text \<open>\<open>groupby('factor_code')['gold_price'].pct_change() * 100\<close>: each row against
  the previous row of its own factor group, as float arithmetic gives it.\<close>

definition pct_change_100 :: "rat option option \<Rightarrow> rat option \<Rightarrow> fvalue" where
  "pct_change_100 previous current =
     (case previous of
        Some (Some q) \<Rightarrow>
          (case current of
             None \<Rightarrow> NaN
           | Some c \<Rightarrow>
               if q \<noteq> 0 then Finite ((c / q - 1) * 100)
               else if c = 0 then NaN
               else if 0 < c then PosInf else NegInf)
      | _ \<Rightarrow> NaN)"

fun group_pct_change ::
    "(string \<Rightarrow> rat option option) \<Rightarrow> 'd aligned_row list \<Rightarrow> 'd aligned_row list" where
  "group_pct_change prev [] = []"
| "group_pct_change prev (r # rs) =
     r\<lparr>price_change_pct := pct_change_100 (prev (factor_code r)) (gold_price r)\<rparr>
       # group_pct_change (prev(factor_code r := Some (gold_price r))) rs"

definition align_with_price ::
    "'d factor_row list \<Rightarrow> 'd price_row list \<Rightarrow> 'd aligned_row list" where
  "align_with_price factor_ts price_data =
     (if factor_ts = [] \<or> price_data = [] then []
      else group_pct_change (\<lambda>f. None) (ffill_gold_price (merge_left factor_ts price_data)))"

subsection \<open>calculate\_factor\_influence\_curve\<close>

text \<open>\<open>Series.rolling(window=w, min_periods=1).sum()\<close> for \<open>w \<ge> 1\<close>: cell \<open>i\<close> is
  the sum of the cells \<open>i - w + 1 .. i\<close> that exist.\<close>

definition rolling_sum :: "nat \<Rightarrow> rat list \<Rightarrow> rat list" where
  "rolling_sum w xs = map (\<lambda>i. sum_list (drop (Suc i - w) (take (Suc i) xs))) [0..<length xs]"

text \<open>The loop body for one factor: its rows sorted by date, each with its rolling
  intensity. Rows of equal date keep their order here; the source's default sort does not
  promise that, and nothing below depends on it.\<close>

definition factor_rolling ::
    "('d::linorder) aligned_row list \<Rightarrow> nat \<Rightarrow> string \<Rightarrow> ('d aligned_row \<times> rat) list" where
  "factor_rolling aligned_data w f =
     (let factor_data = sort_key date (filter (\<lambda>r. factor_code r = f) aligned_data)
      in zip factor_data (rolling_sum w (map intensity factor_data)))"

text \<open>\<open>combined.groupby('date')['rolling_intensity'].transform('sum')\<close> for one row.\<close>

definition daily_total :: "('d aligned_row \<times> rat) list \<Rightarrow> 'd \<Rightarrow> rat" where
  "daily_total combined d = sum_list (map snd (filter (\<lambda>(r, ri). date r = d) combined))"

text \<open>\<open>rolling\<close> raises ValueError for a window below 1 (\<open>min_periods\<close> is 1), in the
  first turn of the loop. The denominator \<open>daily_totals + 1e-6\<close> is positive whenever the
  intensities are not negative; where it is zero a float division gives an infinity or
  NaN, the quotient of the model is meaningless, and no statement below reads it.\<close>

definition calculate_factor_influence_curve ::
    "('d::linorder) aligned_row list \<Rightarrow> int \<Rightarrow> error + 'd influence_row list" where
  "calculate_factor_influence_curve aligned_data window_days =
     (if aligned_data = [] then Inr []
      else if window_days < 1 then Inl ValueError
      else
        let combined = concat (map (factor_rolling aligned_data (nat window_days))
                                 (unique (map factor_code aligned_data)))
        in Inr (map (\<lambda>(r, ri).
                  \<lparr> ic_date = date r, ic_factor_code = factor_code r,
                    normalized_influence = ri / (daily_total combined (date r) + 1 / 10 ^ 6),
                    rolling_intensity = ri,
                    ic_score = score r, ic_gold_price = gold_price r \<rparr>) combined))"

section \<open>Notions of the specification\<close>

text \<open>An event takes part in the aggregation when its timestamp parses to a calendar
  day.\<close>

definition on_calendar_day :: "parsed_date \<Rightarrow> bool" where
  "on_calendar_day p = (case p of Day d \<Rightarrow> True | _ \<Rightarrow> False)"

text \<open>The signed score of one tag as the specification words it (section 4.2): impact
  times strength for polarity \<open>+\<close>, its negation for \<open>-\<close>, zero for \<open>0\<close> and for any
  other polarity.\<close>

definition signed_score :: "rat \<Rightarrow> factor_tag \<Rightarrow> rat" where
  "signed_score impact tag =
     (if get_or (polarity tag) ''0'' = ''+'' then impact * get_or (strength tag) 0
      else if get_or (polarity tag) ''0'' = ''-'' then - (impact * get_or (strength tag) 0)
      else 0)"

text \<open>The tags that contribute to the group (d, f): the tags naming factor \<open>f\<close> on the
  events dated \<open>d\<close>, each with its event, in input order.\<close>

definition contributing_tags ::
    "(string \<Rightarrow> parsed_date) \<Rightarrow> event list \<Rightarrow> int \<Rightarrow> string \<Rightarrow> (event \<times> factor_tag) list" where
  "contributing_tags to_date events d f =
     concat (map (\<lambda>e. if to_date (get_or (timestamp_utc e) []) = Day d
                       then map (Pair e)
                              (filter (\<lambda>tag. get_or (factor tag) [] = f)
                                 (get_or (factor_tags e) []))
                       else []) events)"

text \<open>The three factors of the impact score as the specification words them
  (section 4.1, steps 1 to 3).\<close>

definition type_importance :: "config \<Rightarrow> event \<Rightarrow> rat" where
  "type_importance cfg e =
     (case event_types cfg (get_or (event_type e) ''UNKNOWN'') of
        None \<Rightarrow> 1 / 2
      | Some entry \<Rightarrow> get_or (default_importance entry) (1 / 2))"

definition max_strength :: "factor_tag list \<Rightarrow> rat" where
  "max_strength tags =
     (if tags = [] then 1 / 2 else Max (set (map (\<lambda>tag. get_or (strength tag) 0) tags)))"

definition avg_confidence :: "factor_tag list \<Rightarrow> rat" where
  "avg_confidence tags =
     (if tags = [] then 1 / 2
      else sum_list (map (\<lambda>tag. get_or (confidence tag) 0) tags) / of_nat (length tags))"

text \<open>The key (date, factor\_code) of a table row.\<close>

definition row_key :: "('d, 'a) factor_row_scheme \<Rightarrow> 'd \<times> string" where
  "row_key r = (date r, factor_code r)"




text \<open>The two per-date sums of an influence curve: of rolling\_intensity and of
  normalized\_influence, over all rows of the date.\<close>

definition rolling_total :: "'d influence_row list \<Rightarrow> 'd \<Rightarrow> rat" where
  "rolling_total curve d = sum_list (map rolling_intensity (filter (\<lambda>r. ic_date r = d) curve))"

definition influence_total :: "'d influence_row list \<Rightarrow> 'd \<Rightarrow> rat" where
  "influence_total curve d =
     sum_list (map normalized_influence (filter (\<lambda>r. ic_date r = d) curve))"

section \<open>Auxiliary functions of the proofs\<close>

text \<open>The records that carry a date; one cell of the dense grid; the price the join
  finds for a date when no date occurs twice in the price table; one row of the curve.\<close>

definition dated :: "tag_record list \<Rightarrow> tag_record list" where
  "dated records = filter (\<lambda>r. r_date r \<noteq> None) records"


definition price_on :: "'d price_row list \<Rightarrow> 'd \<Rightarrow> rat option" where
  "price_on price_data d =
     (case find (\<lambda>p. p_date p = d) price_data of None \<Rightarrow> None | Some p \<Rightarrow> p_gold_price p)"

definition to_influence_row ::
    "('d aligned_row \<times> rat) list \<Rightarrow> 'd aligned_row \<times> rat \<Rightarrow> 'd influence_row" where
  "to_influence_row combined p =
     \<lparr> ic_date = date (fst p), ic_factor_code = factor_code (fst p),
       normalized_influence = snd p / (daily_total combined (date (fst p)) + 1 / 10 ^ 6),
       rolling_intensity = snd p,
       ic_score = score (fst p), ic_gold_price = gold_price (fst p) \<rparr>"

section \<open>Example inputs\<close>

text \<open>A taxonomy that knows one event type, of importance 0.6; the tag and the event of
  the specification's polarity example (strength 0.8, confidence 0.9); a parser that knows
  the event's timestamp (2024-01-31 is day 19753).\<close>

definition example_config :: config where
  "example_config =
     \<lparr> event_types = (\<lambda>t. if t = ''CENTRAL_BANK_DECISION''
                             then Some \<lparr> default_importance = Some (3 / 5) \<rparr> else None) \<rparr>"

definition example_tag :: factor_tag where
  "example_tag = \<lparr> factor = Some ''A1_REAL_YIELD'', polarity = Some ''+'',
                   strength = Some (4 / 5), confidence = Some (9 / 10) \<rparr>"

definition example_event :: event where
  "example_event = \<lparr> event_type = Some ''CENTRAL_BANK_DECISION'',
                     timestamp_utc = Some ''2024-01-31T14:00:00Z'',
                     factor_tags = Some [example_tag], event_id = Some ''evt_1'' \<rparr>"

definition example_to_date :: "string \<Rightarrow> parsed_date" where
  "example_to_date s =
     (if s = ''2024-01-31T14:00:00Z'' then Day 19753 else if s = [] then NaT else Raises)"

text \<open>Events whose exact product lies at a tie of the rounding: importance 0.6, strength
  0.75 and confidence 0.75 (product 0.3375), and an unknown event type with strength 0.1
  and confidence 0.05 (product 0.0025); an event with importance 0.6, strength 0.8 and
  confidence 0.72 (product 0.3456). The three errors are those of the double products
  \<open>0.6 * 0.75 * 0.75\<close>, \<open>0.5 * 0.1 * 0.05\<close> and \<open>0.6 * 0.8 * 0.9\<close>.\<close>

definition tie_event :: event where
  "tie_event = example_event
     \<lparr> factor_tags := Some [example_tag \<lparr> strength := Some (3 / 4),
                                         confidence := Some (3 / 4) \<rparr>] \<rparr>"

definition small_tie_event :: event where
  "small_tie_event = example_event
     \<lparr> event_type := Some ''UNLISTED_TYPE'',
       factor_tags := Some [example_tag \<lparr> strength := Some (1 / 10),
                                         confidence := Some (1 / 20) \<rparr>] \<rparr>"

definition rounded_event :: event where
  "rounded_event = example_event
     \<lparr> factor_tags := Some [example_tag \<lparr> confidence := Some (18 / 25) \<rparr>] \<rparr>"

definition tie_error :: rat where
  "tie_error = - 3 / 90071992547409920"

definition small_tie_error :: rat where
  "small_tie_error = 7 / 14411518807585587200"

definition example_error :: rat where
  "example_error = - 11 / 2251799813685248000"

text \<open>The same event with two tags that name the same factor; with a timestamp that does
  not parse; with one tag that has neither strength nor confidence.\<close>

definition double_tag_event :: event where
  "double_tag_event = example_event
     \<lparr> factor_tags := Some [example_tag, example_tag\<lparr> polarity := Some ''-'' \<rparr>] \<rparr>"

definition undated_event :: event where
  "undated_event = example_event \<lparr> timestamp_utc := Some ''yesterday'' \<rparr>"

definition bare_tag :: factor_tag where
  "bare_tag = \<lparr> factor = Some ''A1_REAL_YIELD'', polarity = Some ''+'',
                strength = None, confidence = None \<rparr>"

definition bare_event :: event where
  "bare_event = example_event \<lparr> factor_tags := Some [bare_tag] \<rparr>"

text \<open>The example event with a second tag, on another factor, of polarity \<open>-\<close> and
  strength 0.5.\<close>

definition other_tag :: factor_tag where
  "other_tag = \<lparr> factor = Some ''B9_OTHER'', polarity = Some ''-'',
                 strength = Some (1 / 2), confidence = Some (9 / 10) \<rparr>"

definition two_factor_event :: event where
  "two_factor_event = example_event \<lparr> factor_tags := Some [example_tag, other_tag] \<rparr>"

text \<open>The daily table of the example event; the tz-naive timestamps of noon of its day
  and of 06:00 of the next day.\<close>

definition example_daily :: "int factor_row list" where
  "example_daily = [\<lparr> date = 19753, factor_code = ''A1_REAL_YIELD'', score = 216 / 625,
                      intensity = 216 / 625, event_count = 1 \<rparr>]"



text \<open>A row of zeros; a dense series of two factors over the days 1 and 2 and one of a
  single factor over the days 1 to 3 (dates as day numbers); a price table whose only
  date is day 2.\<close>

definition zero_row :: "'d \<Rightarrow> string \<Rightarrow> 'd factor_row" where
  "zero_row d f = \<lparr> date = d, factor_code = f, score = 0, intensity = 0, event_count = 0 \<rparr>"

definition two_factor_series :: "int factor_row list" where
  "two_factor_series = [zero_row 1 ''A'', zero_row 2 ''A'', zero_row 1 ''B'', zero_row 2 ''B'']"

definition one_factor_series :: "int factor_row list" where
  "one_factor_series = [zero_row 1 ''A'', zero_row 2 ''A'', zero_row 3 ''A'']"

definition price_from_day_2 :: "int price_row list" where
  "price_from_day_2 = [\<lparr> p_date = 2, p_gold_price = Some 2000 \<rparr>]"

text \<open>Aligned tables of one day: one factor whose only activity is a tag of strength 0.1
  on an event of impact 0.005 (intensity 0.0005); two factors of intensity 0.3456 and
  0.1.\<close>

definition tiny_day :: "int aligned_row list" where
  "tiny_day = [\<lparr> date = 1, factor_code = ''A'', score = 1 / 2000, intensity = 1 / 2000,
                 event_count = 1, gold_price = Some 2000, price_change_pct = NaN \<rparr>]"

definition two_factor_day :: "int aligned_row list" where
  "two_factor_day =
     [\<lparr> date = 1, factor_code = ''A'', score = 216 / 625, intensity = 216 / 625,
        event_count = 1, gold_price = Some 2000, price_change_pct = NaN \<rparr>,
      \<lparr> date = 1, factor_code = ''B'', score = - 1 / 10, intensity = 1 / 10,
        event_count = 1, gold_price = Some 2000, price_change_pct = NaN \<rparr>]"

section \<open>Basic facts\<close>

lemma get_or_simps [simp]: "get_or None d = d" "get_or (Some x) d = x"
  by (simp_all add: get_or_def)



lemma py_max_eq_Max: "py_max s ss = Max (set (s # ss))"
proof -
  have "py_max s ss = fold max ss s"
    unfolding py_max_def foldl_conv_fold
    by (rule arg_cong[where f = "\<lambda>f. fold f ss s"]) (auto simp: max_def fun_eq_iff)
  then show ?thesis by (simp only: Max.set_eq_fold)
qed

lemma sum_list_divide: "sum_list (map (\<lambda>x. f x / c) xs) = sum_list (map f xs) / (c::rat)"
  by (induction xs) (simp_all add: add_divide_distrib)

lemma example_event_sel:
  "timestamp_utc example_event = Some ''2024-01-31T14:00:00Z''"
  "factor_tags example_event = Some [example_tag]"
  "event_id example_event = Some ''evt_1''"
  "timestamp_utc double_tag_event = Some ''2024-01-31T14:00:00Z''"
  "factor_tags double_tag_event = Some [example_tag, example_tag\<lparr> polarity := Some ''-'' \<rparr>]"
  "event_id double_tag_event = Some ''evt_1''"
  "timestamp_utc undated_event = Some ''yesterday''"
  "factor_tags bare_event = Some [bare_tag]"
  by (simp_all add: example_event_def double_tag_event_def undated_event_def bare_event_def)

section \<open>The impact score\<close>

lemma score_unfold:
  "calculate_event_impact_score cfg e =
     py_round (type_importance cfg e * max_strength (get_or (factor_tags e) [])
               * avg_confidence (get_or (factor_tags e) []) * 1) 3"
proof -
  have ti: "get_or (default_importance
                      (get_or (event_types cfg (get_or (event_type e) ''UNKNOWN''))
                         \<lparr> default_importance = None \<rparr>)) (1 / 2) = type_importance cfg e"
    by (simp add: type_importance_def split: option.splits)
  have ms: "(case map (\<lambda>tag. get_or (strength tag) 0) tags of [] \<Rightarrow> 1 / 2 | s # ss \<Rightarrow> py_max s ss)
            = max_strength tags" for tags
    by (cases tags) (simp_all add: max_strength_def py_max_eq_Max del: Max_insert set_simps)
  have ac: "(if tags \<noteq> [] then np_mean (map (\<lambda>tag. get_or (confidence tag) 0) tags) else 1 / 2)
            = avg_confidence tags" for tags
    by (simp add: avg_confidence_def np_mean_def)
  show ?thesis
    unfolding calculate_event_impact_score_def Let_def ti ms ac ..
qed

lemma example_score: "calculate_event_impact_score example_config example_event = 54 / 125"
  by (simp add: calculate_event_impact_score_def example_config_def example_event_def
      example_tag_def py_round_def round_half_even_def py_max_def np_mean_def Let_def)

lemma double_tag_score: "calculate_event_impact_score example_config double_tag_event = 54 / 125"
  by (simp add: calculate_event_impact_score_def example_config_def example_event_def
      double_tag_event_def example_tag_def py_round_def round_half_even_def py_max_def
      np_mean_def Let_def)

subsection \<open>Rounding to three decimals\<close>

lemma round_half_even_error: "\<bar>of_int (round_half_even y) - y\<bar> \<le> 1 / 2"
proof -
  have "of_int \<lfloor>y\<rfloor> \<le> y" "y < of_int \<lfloor>y\<rfloor> + 1"
    by linarith+
  then show ?thesis
    by (auto simp: round_half_even_def Let_def)
qed

lemma round_half_even_near:
  assumes "\<bar>y - of_int k\<bar> < 1 / 2"
  shows "round_half_even y = k"
proof (cases "of_int k \<le> y")
  case True
  with assms have "y < of_int k + 1" by linarith
  with True have "\<lfloor>y\<rfloor> = k" by (simp add: floor_unique)
  moreover from True assms have "y - of_int k < 1 / 2" by linarith
  ultimately show ?thesis by (simp add: round_half_even_def Let_def)
next
  case False
  have c: "(of_int (k - 1) :: rat) = of_int k - 1" by simp
  from False assms have "of_int (k - 1) \<le> y" unfolding c by linarith
  moreover from False have "y < of_int (k - 1) + 1" unfolding c by linarith
  ultimately have fl: "\<lfloor>y\<rfloor> = k - 1" by (rule floor_unique)
  from False assms have "1 / 2 < y - of_int (k - 1)" unfolding c by linarith
  with fl show ?thesis by (simp add: round_half_even_def Let_def)
qed

lemma py_round_3_multiple: "\<exists>k::int. py_round x 3 = of_int k / 1000"
  by (auto simp: py_round_def)

lemma py_round_3_error: "\<bar>py_round x 3 - x\<bar> \<le> 1 / 2000"
proof -
  have e: "\<bar>of_int (round_half_even (x * 1000)) - x * 1000\<bar> \<le> 1 / 2"
    by (rule round_half_even_error)
  have "py_round x 3 - x = (of_int (round_half_even (x * 1000)) - x * 1000) / 1000"
    by (simp add: py_round_def field_simps)
  then have "\<bar>py_round x 3 - x\<bar> = \<bar>of_int (round_half_even (x * 1000)) - x * 1000\<bar> / 1000"
    by (simp only: abs_divide)
  also have "\<dots> \<le> (1 / 2) / 1000" using e by (intro divide_right_mono) simp_all
  finally show ?thesis by simp
qed

lemma py_round_3_near:
  assumes "\<bar>x - of_int k / 1000\<bar> < 1 / 2000"
  shows "py_round x 3 = of_int k / 1000"
proof -
  have "x * 1000 - of_int k = (x - of_int k / 1000) * 1000" by (simp add: field_simps)
  then have "\<bar>x * 1000 - of_int k\<bar> = \<bar>x - of_int k / 1000\<bar> * 1000"
    by (simp only: abs_mult)
  with assms have "\<bar>x * 1000 - of_int k\<bar> < 1 / 2" by linarith
  then have "round_half_even (x * 1000) = k" by (rule round_half_even_near)
  then show ?thesis by (simp add: py_round_def)
qed

lemma score_double_unfold:
  "calculate_event_impact_score_double err cfg e =
     py_round (type_importance cfg e * max_strength (get_or (factor_tags e) [])
               * avg_confidence (get_or (factor_tags e) []) * 1 + err) 3"
proof -
  have ti: "get_or (default_importance
                      (get_or (event_types cfg (get_or (event_type e) ''UNKNOWN''))
                         \<lparr> default_importance = None \<rparr>)) (1 / 2) = type_importance cfg e"
    by (simp add: type_importance_def split: option.splits)
  have ms: "(case map (\<lambda>tag. get_or (strength tag) 0) tags of [] \<Rightarrow> 1 / 2 | s # ss \<Rightarrow> py_max s ss)
            = max_strength tags" for tags
    by (cases tags) (simp_all add: max_strength_def py_max_eq_Max del: Max_insert set_simps)
  have ac: "(if tags \<noteq> [] then np_mean (map (\<lambda>tag. get_or (confidence tag) 0) tags) else 1 / 2)
            = avg_confidence tags" for tags
    by (simp add: avg_confidence_def np_mean_def)
  show ?thesis
    unfolding calculate_event_impact_score_double_def Let_def ti ms ac ..
qed

lemma score_double_exact:
  "calculate_event_impact_score_double 0 cfg e = calculate_event_impact_score cfg e"
  by (simp add: score_double_unfold score_unfold)

text \<open>
  Claim C6. For every event, and whatever the error \<open>err\<close> of the double arithmetic, the
  score is the rounding to three decimals of the product of type importance, maximal
  strength, average confidence and the multiplier 1 as the doubles give it (the exact
  product plus \<open>err\<close>): it is a multiple of 0.001 and at most 0.0005 away from that
  product; without error it is the score of exact arithmetic. The type importance is 0.5
  for an event type that the taxonomy does not know; the maximal strength and the average
  confidence are 0.5 each for an event without tags. An event with a single tag of
  strength 0.8 and confidence 0.9 and of type importance 0.6 scores exactly 0.432, for
  every error below 0.0005.
\<close>

theorem impact_score_formula:
  "calculate_event_impact_score_double err cfg e =
     py_round (type_importance cfg e * max_strength (get_or (factor_tags e) [])
               * avg_confidence (get_or (factor_tags e) []) * 1 + err) 3 \<and>
   (\<exists>k::int. calculate_event_impact_score_double err cfg e = of_int k / 1000) \<and>
   \<bar>calculate_event_impact_score_double err cfg e
      - (type_importance cfg e * max_strength (get_or (factor_tags e) [])
         * avg_confidence (get_or (factor_tags e) []) * 1 + err)\<bar> \<le> 1 / 2000 \<and>
   calculate_event_impact_score_double 0 cfg e = calculate_event_impact_score cfg e \<and>
   (event_types cfg (get_or (event_type e) ''UNKNOWN'') = None \<longrightarrow> type_importance cfg e = 1 / 2) \<and>
   (get_or (factor_tags e) [] = [] \<longrightarrow>
      max_strength (get_or (factor_tags e) []) = 1 / 2 \<and>
      avg_confidence (get_or (factor_tags e) []) = 1 / 2) \<and>
   (type_importance cfg e = 3 / 5 \<and> factor_tags e = Some [tag] \<and>
    strength tag = Some (4 / 5) \<and> confidence tag = Some (9 / 10) \<and> \<bar>err\<bar> < 1 / 2000 \<longrightarrow>
      calculate_event_impact_score_double err cfg e = 432 / 1000)"
proof (intro conjI impI)
  show "calculate_event_impact_score_double err cfg e =
     py_round (type_importance cfg e * max_strength (get_or (factor_tags e) [])
               * avg_confidence (get_or (factor_tags e) []) * 1 + err) 3"
    by (rule score_double_unfold)
next
  show "\<exists>k::int. calculate_event_impact_score_double err cfg e = of_int k / 1000"
    unfolding score_double_unfold by (rule py_round_3_multiple)
next
  show "\<bar>calculate_event_impact_score_double err cfg e
      - (type_importance cfg e * max_strength (get_or (factor_tags e) [])
         * avg_confidence (get_or (factor_tags e) []) * 1 + err)\<bar> \<le> 1 / 2000"
    unfolding score_double_unfold by (rule py_round_3_error)
next
  show "calculate_event_impact_score_double 0 cfg e = calculate_event_impact_score cfg e"
    by (rule score_double_exact)
next
  assume "event_types cfg (get_or (event_type e) ''UNKNOWN'') = None"
  then show "type_importance cfg e = 1 / 2" by (simp add: type_importance_def)
next
  assume "get_or (factor_tags e) [] = []"
  then show "max_strength (get_or (factor_tags e) []) = 1 / 2"
    and "avg_confidence (get_or (factor_tags e) []) = 1 / 2"
    by (simp_all add: max_strength_def avg_confidence_def)
next
  assume a: "type_importance cfg e = 3 / 5 \<and> factor_tags e = Some [tag] \<and>
    strength tag = Some (4 / 5) \<and> confidence tag = Some (9 / 10) \<and> \<bar>err\<bar> < 1 / 2000"
  from a have ti: "type_importance cfg e = 3 / 5" by (rule conjunct1)
  from a have ft: "factor_tags e = Some [tag]" by blast
  from a have st: "strength tag = Some (4 / 5)" by blast
  from a have cf: "confidence tag = Some (9 / 10)" by blast
  from a have er: "\<bar>err\<bar> < 1 / 2000" by blast
  have ms: "max_strength (get_or (factor_tags e) []) = 4 / 5"
    by (simp add: max_strength_def ft st)
  have ac: "avg_confidence (get_or (factor_tags e) []) = 9 / 10"
    by (simp add: avg_confidence_def ft cf)
  have "py_round (3 / 5 * (4 / 5) * (9 / 10) * 1 + err) 3 = of_int 432 / 1000"
    by (rule py_round_3_near) (use er in simp)
  then show "calculate_event_impact_score_double err cfg e = 432 / 1000"
    unfolding score_double_unfold ti ms ac by simp
qed

text \<open>The example event under the error of the double product \<open>0.6 * 0.8 * 0.9\<close> scores
  0.432. The example event without its event type, or without its tags, meets the
  hypotheses of the fallbacks. The product 0.3456 is rounded to 0.346. At the two ties the
  score under the error of the double product is 0.337 and 0.003, the values that
  \<open>round(0.6 * 0.75 * 0.75, 3)\<close> and \<open>round(0.5 * 0.1 * 0.05, 3)\<close> have in doubles, where
  exact arithmetic rounds the tie to the even neighbour, 0.338 and 0.002.\<close>

theorem impact_score_formula_witness:
  "type_importance example_config example_event = 3 / 5 \<and>
   factor_tags example_event = Some [example_tag] \<and>
   strength example_tag = Some (4 / 5) \<and> confidence example_tag = Some (9 / 10) \<and>
   \<bar>example_error\<bar> < 1 / 2000 \<and>
   calculate_event_impact_score_double example_error example_config example_event = 432 / 1000 \<and>
   calculate_event_impact_score example_config example_event = 432 / 1000 \<and>
   event_types example_config
     (get_or (event_type (example_event\<lparr>event_type := None\<rparr>)) ''UNKNOWN'') = None \<and>
   type_importance example_config (example_event\<lparr>event_type := None\<rparr>) = 1 / 2 \<and>
   get_or (factor_tags (example_event\<lparr>factor_tags := None\<rparr>)) [] = [] \<and>
   max_strength (get_or (factor_tags (example_event\<lparr>factor_tags := None\<rparr>)) []) = 1 / 2 \<and>
   avg_confidence (get_or (factor_tags (example_event\<lparr>factor_tags := None\<rparr>)) []) = 1 / 2 \<and>
   calculate_event_impact_score_double 0 example_config rounded_event = 346 / 1000 \<and>
   calculate_event_impact_score_double tie_error example_config tie_event = 337 / 1000 \<and>
   calculate_event_impact_score_double 0 example_config tie_event = 338 / 1000 \<and>
   calculate_event_impact_score_double small_tie_error example_config small_tie_event = 3 / 1000 \<and>
   calculate_event_impact_score_double 0 example_config small_tie_event = 2 / 1000"
proof -
  have h1: "type_importance example_config example_event = 3 / 5 \<and>
     factor_tags example_event = Some [example_tag] \<and>
     strength example_tag = Some (4 / 5) \<and> confidence example_tag = Some (9 / 10) \<and>
     \<bar>example_error\<bar> < 1 / 2000"
    by (simp add: type_importance_def example_config_def example_event_def example_tag_def
        example_error_def)
  have h1': "type_importance example_config example_event = 3 / 5 \<and>
     factor_tags example_event = Some [example_tag] \<and>
     strength example_tag = Some (4 / 5) \<and> confidence example_tag = Some (9 / 10) \<and>
     \<bar>0::rat\<bar> < 1 / 2000"
    using h1 by simp
  have h2: "event_types example_config
              (get_or (event_type (example_event\<lparr>event_type := None\<rparr>)) ''UNKNOWN'') = None"
    by (simp add: example_config_def)
  have h3: "get_or (factor_tags (example_event\<lparr>factor_tags := None\<rparr>)) [] = []"
    by simp
  note a = impact_score_formula[of example_error example_config example_event example_tag]
  note a0 = impact_score_formula[of 0 example_config example_event example_tag]
  note b = impact_score_formula[of 0 example_config "example_event\<lparr>event_type := None\<rparr>"
      example_tag]
  note c = impact_score_formula[of 0 example_config "example_event\<lparr>factor_tags := None\<rparr>"
      example_tag]
  have v1: "calculate_event_impact_score_double example_error example_config example_event
              = 432 / 1000"
    using a h1 by blast
  have v2: "calculate_event_impact_score example_config example_event = 432 / 1000"
    using a0 h1' by metis
  have v3: "type_importance example_config (example_event\<lparr>event_type := None\<rparr>) = 1 / 2"
    using b h2 by blast
  have v4: "max_strength (get_or (factor_tags (example_event\<lparr>factor_tags := None\<rparr>)) []) = 1 / 2"
    "avg_confidence (get_or (factor_tags (example_event\<lparr>factor_tags := None\<rparr>)) []) = 1 / 2"
    using c h3 by blast+
  have ti: "type_importance example_config rounded_event = 3 / 5"
    "type_importance example_config tie_event = 3 / 5"
    "type_importance example_config small_tie_event = 1 / 2"
    by (simp_all add: type_importance_def example_config_def example_event_def
        rounded_event_def tie_event_def small_tie_event_def)
  have ms: "max_strength (get_or (factor_tags rounded_event) []) = 4 / 5"
    "max_strength (get_or (factor_tags tie_event) []) = 3 / 4"
    "max_strength (get_or (factor_tags small_tie_event) []) = 1 / 10"
    by (simp_all add: max_strength_def example_tag_def
        rounded_event_def tie_event_def small_tie_event_def)
  have ac: "avg_confidence (get_or (factor_tags rounded_event) []) = 18 / 25"
    "avg_confidence (get_or (factor_tags tie_event) []) = 3 / 4"
    "avg_confidence (get_or (factor_tags small_tie_event) []) = 1 / 20"
    by (simp_all add: avg_confidence_def example_tag_def
        rounded_event_def tie_event_def small_tie_event_def)
  have r1: "py_round (3 / 5 * (4 / 5) * (18 / 25) * 1 + 0) 3 = of_int 346 / 1000"
    by (rule py_round_3_near) simp
  have r2: "py_round (3 / 5 * (3 / 4) * (3 / 4) * 1 + tie_error) 3 = of_int 337 / 1000"
    by (rule py_round_3_near) (simp add: tie_error_def)
  have fl: "\<lfloor>675 / 2 :: rat\<rfloor> = 337" "\<lfloor>5 / 2 :: rat\<rfloor> = 2"
    by (simp_all add: floor_eq_iff)
  have r3: "py_round (3 / 5 * (3 / 4) * (3 / 4) * 1 + 0) 3 = 338 / 1000"
    by (simp add: py_round_def round_half_even_def fl)
  have r4: "py_round (1 / 2 * (1 / 10) * (1 / 20) * 1 + small_tie_error) 3 = of_int 3 / 1000"
    by (rule py_round_3_near) (simp add: small_tie_error_def)
  have r5: "py_round (1 / 2 * (1 / 10) * (1 / 20) * 1 + 0) 3 = 2 / 1000"
    by (simp add: py_round_def round_half_even_def fl)
  have w1: "calculate_event_impact_score_double 0 example_config rounded_event = 346 / 1000"
    using impact_score_formula[of 0 example_config rounded_event example_tag, THEN conjunct1]
      r1 ti ms ac by simp
  have w2: "calculate_event_impact_score_double tie_error example_config tie_event = 337 / 1000"
    using impact_score_formula[of tie_error example_config tie_event example_tag, THEN conjunct1]
      r2 ti ms ac by simp
  have w3: "calculate_event_impact_score_double 0 example_config tie_event = 338 / 1000"
    using impact_score_formula[of 0 example_config tie_event example_tag, THEN conjunct1]
      r3 ti ms ac by simp
  have w4: "calculate_event_impact_score_double small_tie_error example_config small_tie_event
              = 3 / 1000"
    using impact_score_formula[of small_tie_error example_config small_tie_event example_tag,
        THEN conjunct1] r4 ti ms ac by simp
  have w5: "calculate_event_impact_score_double 0 example_config small_tie_event = 2 / 1000"
    using impact_score_formula[of 0 example_config small_tie_event example_tag, THEN conjunct1]
      r5 ti ms ac by simp
  from h1 h2 h3 v1 v2 v3 v4 w1 w2 w3 w4 w5 show ?thesis by blast
qed

text \<open>
  Claim C10. For an event with a non-empty tag list, a tag without strength or confidence
  counts as 0 (not as the 0.5 of the empty list): the score uses the maximum of the
  strengths and the mean of the confidences with every missing value read as 0; in the
  aggregation a tag without strength contributes the signed score 0 (and the absolute
  score 0) whatever its polarity.
\<close>

theorem missing_fields_read_as_zero:
  "(factor_tags e = Some tags \<and> tags \<noteq> [] \<longrightarrow>
      calculate_event_impact_score cfg e =
        py_round (type_importance cfg e
                  * Max (set (map (\<lambda>tag. get_or (strength tag) 0) tags))
                  * (sum_list (map (\<lambda>tag. get_or (confidence tag) 0) tags) / of_nat (length tags))
                  * 1) 3) \<and>
   (strength tag = None \<longrightarrow>
      r_signed_score (tag_to_record event_date impact_score e tag) = 0 \<and>
      r_abs_score (tag_to_record event_date impact_score e tag) = 0)"
  by (simp add: score_unfold max_strength_def avg_confidence_def tag_to_record_def Let_def)

text \<open>An event whose only tag has neither field scores 0, and the tag contributes 0.\<close>

theorem missing_fields_read_as_zero_witness:
  "factor_tags bare_event = Some [bare_tag] \<and> [bare_tag] \<noteq> [] \<and> strength bare_tag = None \<and>
   calculate_event_impact_score example_config bare_event = 0 \<and>
   r_signed_score (tag_to_record (Some 19753) 1 bare_event bare_tag) = 0 \<and>
   r_abs_score (tag_to_record (Some 19753) 1 bare_event bare_tag) = 0"
proof -
  have h: "factor_tags bare_event = Some [bare_tag] \<and> [bare_tag] \<noteq> []"
    and s: "strength bare_tag = None" "confidence bare_tag = None"
    by (simp_all add: example_event_sel bare_tag_def)
  from h missing_fields_read_as_zero[of bare_event "[bare_tag]" example_config bare_tag]
  have "calculate_event_impact_score example_config bare_event =
          py_round (type_importance example_config bare_event
                  * Max (set (map (\<lambda>tag. get_or (strength tag) 0) [bare_tag]))
                  * (sum_list (map (\<lambda>tag. get_or (confidence tag) 0) [bare_tag])
                       / of_nat (length [bare_tag]))
                  * 1) 3"
    by blast
  then have "calculate_event_impact_score example_config bare_event = 0"
    using s by (simp add: py_round_def round_half_even_def)
  then show ?thesis
    using h s missing_fields_read_as_zero[of bare_event "[bare_tag]" example_config bare_tag
        "Some 19753" 1]
    by blast
qed

section \<open>The daily aggregation\<close>

subsection \<open>Grouping ignores the records without a date\<close>

lemma group_keys_dated: "group_keys (dated records) = group_keys records"
proof -
  have "concat (map (\<lambda>r. case r_date r of None \<Rightarrow> [] | Some d \<Rightarrow> [(d, r_factor_code r)])
                 (dated records))
      = concat (map (\<lambda>r. case r_date r of None \<Rightarrow> [] | Some d \<Rightarrow> [(d, r_factor_code r)])
                 records)"
    by (induction records) (auto simp: dated_def)
  then show ?thesis by (simp add: group_keys_def)
qed

lemma group_of_dated: "group_of (dated records) k = group_of records k"
  by (induction records) (auto simp: dated_def group_of_def)

lemma groupby_agg_dated: "groupby_agg (dated records) = groupby_agg records"
  by (simp add: groupby_agg_def group_keys_dated group_of_dated)

lemma groupby_agg_Nil: "groupby_agg [] = []"
  by (simp add: groupby_agg_def group_keys_def)

lemma aggregate_as_groupby:
  "aggregate_factor_scores_by_day to_date cfg events =
     groupby_agg (concat (map (event_records to_date cfg) events))"
  by (cases "concat (map (event_records to_date cfg) events) = []")
     (simp_all add: aggregate_factor_scores_by_day_def Let_def groupby_agg_Nil
        del: concat_eq_Nil_conv)

lemma dated_event_records:
  "dated (event_records to_date cfg e) =
     (if on_calendar_day (to_date (get_or (timestamp_utc e) []))
      then event_records to_date cfg e else [])"
  by (auto simp: dated_def event_records_def on_calendar_day_def tag_to_record_def
      Let_def filter_empty_conv split: parsed_date.splits)

lemma dated_concat_filter:
  "dated (concat (map (event_records to_date cfg) events)) =
   dated (concat (map (event_records to_date cfg)
            (filter (\<lambda>e. on_calendar_day (to_date (get_or (timestamp_utc e) []))) events)))"
proof (induction events)
  case Nil
  then show ?case by simp
next
  case (Cons e es)
  have app: "\<And>xs ys. dated (xs @ ys) = dated xs @ dated ys" by (simp add: dated_def)
  show ?case using Cons by (simp add: app dated_event_records)
qed

text \<open>
  Claim C8. The aggregation is total (it has no error result), and an event whose
  timestamp does not parse to a calendar day contributes to no group: the output is the
  output on the list without these events.
\<close>

theorem unparseable_events_skipped:
  "aggregate_factor_scores_by_day to_date cfg events =
   aggregate_factor_scores_by_day to_date cfg
     (filter (\<lambda>e. on_calendar_day (to_date (get_or (timestamp_utc e) []))) events)"
proof -
  let ?kept = "filter (\<lambda>e. on_calendar_day (to_date (get_or (timestamp_utc e) []))) events"
  have "aggregate_factor_scores_by_day to_date cfg events =
        groupby_agg (dated (concat (map (event_records to_date cfg) events)))"
    by (simp add: aggregate_as_groupby groupby_agg_dated)
  also have "\<dots> = groupby_agg (dated (concat (map (event_records to_date cfg) ?kept)))"
    using dated_concat_filter[of to_date cfg events] by simp
  also have "\<dots> = aggregate_factor_scores_by_day to_date cfg ?kept"
    by (simp add: aggregate_as_groupby groupby_agg_dated)
  finally show ?thesis .
qed

text \<open>With an event whose timestamp makes the parser raise in front of the example
  event, the table is that of the example event alone.\<close>

theorem unparseable_events_skipped_witness:
  "aggregate_factor_scores_by_day example_to_date example_config [undated_event, example_event] =
   aggregate_factor_scores_by_day example_to_date example_config [example_event]"
  using unparseable_events_skipped[of example_to_date example_config
      "[undated_event, example_event]"]
  by (simp add: on_calendar_day_def example_event_sel example_to_date_def)

subsection \<open>The rows of the table\<close>

lemma tag_to_record_sel:
  "r_date (tag_to_record dt imp e tag) = dt"
  "r_factor_code (tag_to_record dt imp e tag) = get_or (factor tag) []"
  "r_signed_score (tag_to_record dt imp e tag) = signed_score imp tag"
  "r_abs_score (tag_to_record dt imp e tag) = \<bar>signed_score imp tag\<bar>"
  by (simp_all add: tag_to_record_def Let_def signed_score_def)

lemma group_of_append: "group_of (xs @ ys) k = group_of xs k @ group_of ys k"
  by (simp add: group_of_def)

lemma group_of_event_records:
  "group_of (event_records to_date cfg e) (d, f) =
     (if to_date (get_or (timestamp_utc e) []) = Day d
      then map (tag_to_record (Some d) (calculate_event_impact_score cfg e) e)
             (filter (\<lambda>tag. get_or (factor tag) [] = f) (get_or (factor_tags e) []))
      else [])"
  by (cases "to_date (get_or (timestamp_utc e) [])")
     (auto simp: group_of_def event_records_def Let_def tag_to_record_sel filter_map comp_def
        filter_empty_conv)

lemma group_of_records:
  "group_of (concat (map (event_records to_date cfg) events)) (d, f) =
     map (\<lambda>(e, tag). tag_to_record (Some d) (calculate_event_impact_score cfg e) e tag)
       (contributing_tags to_date events d f)"
proof (induction events)
  case Nil
  then show ?case by (simp add: group_of_def contributing_tags_def)
next
  case (Cons e es)
  then show ?case
    by (simp add: group_of_append group_of_event_records contributing_tags_def comp_def)
qed

lemma set_group_keys:
  "set (group_keys records) = {(d, r_factor_code r) | d r. r \<in> set records \<and> r_date r = Some d}"
  by (auto simp: group_keys_def split: option.splits)

lemma distinct_group_keys: "distinct (group_keys records)"
  by (simp add: group_keys_def)

lemma group_key_has_group:
  assumes "k \<in> set (group_keys records)"
  shows "group_of records k \<noteq> []"
proof -
  from assms obtain d r where "k = (d, r_factor_code r)" "r \<in> set records" "r_date r = Some d"
    by (auto simp: set_group_keys)
  then have "r \<in> set (group_of records k)" by (simp add: group_of_def)
  then show ?thesis by auto
qed

lemma aggregate_row:
  assumes "row \<in> set (aggregate_factor_scores_by_day to_date cfg events)"
  defines "g \<equiv> group_of (concat (map (event_records to_date cfg) events))
                  (date row, factor_code row)"
  shows "score row = sum_list (map r_signed_score g)"
    and "intensity row = sum_list (map r_abs_score g)"
    and "event_count row = int (length g)"
    and "g \<noteq> []"
  using assms by (auto simp: aggregate_as_groupby groupby_agg_def dest: group_key_has_group)

lemma aggregate_keys:
  "map row_key (aggregate_factor_scores_by_day to_date cfg events) =
     group_keys (concat (map (event_records to_date cfg) events))"
  by (simp add: aggregate_as_groupby groupby_agg_def comp_def row_key_def)

lemma aggregate_keys_distinct:
  "distinct (map row_key (aggregate_factor_scores_by_day to_date cfg events))"
  by (simp add: aggregate_keys distinct_group_keys)

lemma event_count_is_tag_count:
  assumes "row \<in> set (aggregate_factor_scores_by_day to_date cfg events)"
  shows "event_count row =
           int (length (contributing_tags to_date events (date row) (factor_code row)))"
  using aggregate_row(3)[OF assms] by (simp add: group_of_records)

lemma example_records:
  "tag_to_record dt (54 / 125) e example_tag =
     \<lparr> r_date = dt, r_factor_code = ''A1_REAL_YIELD'', r_signed_score = 216 / 625,
       r_abs_score = 216 / 625, r_event_id = get_or (event_id e) [] \<rparr>"
  "tag_to_record dt (54 / 125) e (example_tag\<lparr> polarity := Some ''-'' \<rparr>) =
     \<lparr> r_date = dt, r_factor_code = ''A1_REAL_YIELD'', r_signed_score = - (216 / 625),
       r_abs_score = 216 / 625, r_event_id = get_or (event_id e) [] \<rparr>"
  by (simp_all add: tag_to_record_def example_tag_def Let_def)

lemma example_aggregate:
  "aggregate_factor_scores_by_day example_to_date example_config [example_event] = example_daily"
  by (simp add: aggregate_factor_scores_by_day_def event_records_def example_score
      example_event_sel example_records example_to_date_def groupby_agg_def group_keys_def
      group_of_def example_daily_def Let_def)

lemma group_has_key:
  assumes "group_of records k \<noteq> []"
  shows "k \<in> set (group_keys records)"
proof -
  from assms obtain r where "r \<in> set (group_of records k)"
    by (cases "group_of records k") auto
  then have "r \<in> set records" "r_date r = Some (fst k)" "r_factor_code r = snd k"
    by (simp_all add: group_of_def)
  then show ?thesis by (force simp: set_group_keys)
qed

lemma aggregate_key_set:
  "set (map row_key (aggregate_factor_scores_by_day to_date cfg events)) =
     {(d, f). contributing_tags to_date events d f \<noteq> []}"
proof -
  let ?recs = "concat (map (event_records to_date cfg) events)"
  have "k \<in> set (group_keys ?recs) \<longleftrightarrow> contributing_tags to_date events (fst k) (snd k) \<noteq> []"
    for k
  proof -
    have "k \<in> set (group_keys ?recs) \<longleftrightarrow> group_of ?recs k \<noteq> []"
      using group_key_has_group[of k ?recs] group_has_key[of ?recs k] by auto
    moreover have "group_of ?recs k =
        map (\<lambda>(e, tag). tag_to_record (Some (fst k)) (calculate_event_impact_score cfg e) e tag)
          (contributing_tags to_date events (fst k) (snd k))"
      using group_of_records[of to_date cfg events "fst k" "snd k"] by simp
    ultimately show ?thesis by simp
  qed
  then show ?thesis unfolding aggregate_keys by auto
qed

lemma two_factor_event_sel:
  "timestamp_utc two_factor_event = Some ''2024-01-31T14:00:00Z''"
  "factor_tags two_factor_event = Some [example_tag, other_tag]"
  by (simp_all add: two_factor_event_def example_event_def)

lemma two_factor_score:
  "calculate_event_impact_score example_config two_factor_event = 432 / 1000"
  by (simp add: calculate_event_impact_score_def example_config_def example_event_def
      two_factor_event_def example_tag_def other_tag_def py_round_def round_half_even_def
      py_max_def np_mean_def Let_def)

text \<open>
  Claim C7. The record the loop appends for a tag carries the signed score of the
  specification (impact times strength for \<open>+\<close>, its negation for \<open>-\<close>, 0 otherwise) and its
  absolute value. The output has exactly one row for every pair (date, factor) to which a
  tag contributes, and no other row; the score of every row is the sum of the signed
  scores, and its intensity the sum of their absolute values, over all the tags that
  contribute to the row's pair.
\<close>

theorem signed_score_aggregation:
  "r_signed_score (tag_to_record event_date impact e tag) = signed_score impact tag \<and>
   r_abs_score (tag_to_record event_date impact e tag) = \<bar>signed_score impact tag\<bar> \<and>
   distinct (map row_key (aggregate_factor_scores_by_day to_date cfg events)) \<and>
   set (map row_key (aggregate_factor_scores_by_day to_date cfg events)) =
     {(d, f). contributing_tags to_date events d f \<noteq> []} \<and>
   (\<forall>row \<in> set (aggregate_factor_scores_by_day to_date cfg events).
      score row =
        sum_list (map (\<lambda>(ev, tg). signed_score (calculate_event_impact_score cfg ev) tg)
                    (contributing_tags to_date events (date row) (factor_code row))) \<and>
      intensity row =
        sum_list (map (\<lambda>(ev, tg). \<bar>signed_score (calculate_event_impact_score cfg ev) tg\<bar>)
                    (contributing_tags to_date events (date row) (factor_code row))))"
proof (intro conjI ballI)
  show "r_signed_score (tag_to_record event_date impact e tag) = signed_score impact tag"
    and "r_abs_score (tag_to_record event_date impact e tag) = \<bar>signed_score impact tag\<bar>"
    by (simp_all add: tag_to_record_sel)
next
  show "distinct (map row_key (aggregate_factor_scores_by_day to_date cfg events))"
    by (rule aggregate_keys_distinct)
next
  show "set (map row_key (aggregate_factor_scores_by_day to_date cfg events)) =
     {(d, f). contributing_tags to_date events d f \<noteq> []}"
    by (rule aggregate_key_set)
next
  fix row assume r: "row \<in> set (aggregate_factor_scores_by_day to_date cfg events)"
  show "score row =
        sum_list (map (\<lambda>(ev, tg). signed_score (calculate_event_impact_score cfg ev) tg)
                    (contributing_tags to_date events (date row) (factor_code row)))"
    using aggregate_row(1)[OF r]
    by (simp add: group_of_records comp_def case_prod_unfold tag_to_record_sel)
  show "intensity row =
        sum_list (map (\<lambda>(ev, tg). \<bar>signed_score (calculate_event_impact_score cfg ev) tg\<bar>)
                    (contributing_tags to_date events (date row) (factor_code row)))"
    using aggregate_row(2)[OF r]
    by (simp add: group_of_records comp_def case_prod_unfold tag_to_record_sel)
qed

text \<open>One event with a tag on A1\_REAL\_YIELD (\<open>+\<close>, strength 0.8) and a tag on B9\_OTHER
  (\<open>-\<close>, strength 0.5), of impact 0.432: each of the two tags contributes to its own pair,
  so the table has a row for each pair, the second with score \<open>- 0.432 * 0.5\<close> and
  intensity \<open>0.432 * 0.5\<close>, the first with score and intensity \<open>0.432 * 0.8\<close>.\<close>

theorem signed_score_aggregation_witness:
  "contributing_tags example_to_date [two_factor_event] 19753 ''A1_REAL_YIELD'' =
     [(two_factor_event, example_tag)] \<and>
   contributing_tags example_to_date [two_factor_event] 19753 ''B9_OTHER'' =
     [(two_factor_event, other_tag)] \<and>
   (\<exists>row. row \<in> set (aggregate_factor_scores_by_day example_to_date example_config
                        [two_factor_event]) \<and>
      date row = 19753 \<and> factor_code row = ''A1_REAL_YIELD'' \<and>
      score row = 432 / 1000 * (4 / 5) \<and> intensity row = 432 / 1000 * (4 / 5)) \<and>
   (\<exists>row. row \<in> set (aggregate_factor_scores_by_day example_to_date example_config
                        [two_factor_event]) \<and>
      date row = 19753 \<and> factor_code row = ''B9_OTHER'' \<and>
      score row = - (432 / 1000 * (1 / 2)) \<and> intensity row = 432 / 1000 * (1 / 2))"
proof -
  let ?out = "aggregate_factor_scores_by_day example_to_date example_config [two_factor_event]"
  note inst = signed_score_aggregation[where to_date = example_to_date
      and cfg = example_config and events = "[two_factor_event]"]
  have ca: "contributing_tags example_to_date [two_factor_event] 19753 ''A1_REAL_YIELD'' =
     [(two_factor_event, example_tag)]"
    by (simp add: contributing_tags_def two_factor_event_sel example_to_date_def)
       (simp add: example_tag_def other_tag_def)
  have cb: "contributing_tags example_to_date [two_factor_event] 19753 ''B9_OTHER'' =
     [(two_factor_event, other_tag)]"
    by (simp add: contributing_tags_def two_factor_event_sel example_to_date_def)
       (simp add: example_tag_def other_tag_def)
  have sa: "signed_score (54 / 125) example_tag = 216 / 625"
    and sb: "signed_score (54 / 125) other_tag = - (27 / 125)"
    by (simp_all add: signed_score_def example_tag_def other_tag_def)
  from inst have keys: "set (map row_key ?out) =
     {(d, f). contributing_tags example_to_date [two_factor_event] d f \<noteq> []}"
    by blast
  from inst have sums: "\<forall>row \<in> set ?out.
      score row =
        sum_list (map (\<lambda>(ev, tg). signed_score (calculate_event_impact_score example_config ev) tg)
                    (contributing_tags example_to_date [two_factor_event]
                       (date row) (factor_code row))) \<and>
      intensity row =
        sum_list (map (\<lambda>(ev, tg). \<bar>signed_score (calculate_event_impact_score example_config ev) tg\<bar>)
                    (contributing_tags example_to_date [two_factor_event]
                       (date row) (factor_code row)))"
    by blast
  have "(19753, ''A1_REAL_YIELD'') \<in> set (map row_key ?out)"
    unfolding keys using ca by simp
  then obtain ra where ra: "ra \<in> set ?out" "date ra = 19753" "factor_code ra = ''A1_REAL_YIELD''"
    by (auto simp: row_key_def)
  have "(19753, ''B9_OTHER'') \<in> set (map row_key ?out)"
    unfolding keys using cb by simp
  then obtain rb where rb: "rb \<in> set ?out" "date rb = 19753" "factor_code rb = ''B9_OTHER''"
    by (auto simp: row_key_def)
  from sums ra have va: "score ra = 432 / 1000 * (4 / 5)" "intensity ra = 432 / 1000 * (4 / 5)"
    by (simp_all add: ca two_factor_score sa)
  from sums rb have vb: "score rb = - (432 / 1000 * (1 / 2))" "intensity rb = 432 / 1000 * (1 / 2)"
    by (simp_all add: cb two_factor_score sb)
  from ra va have ea: "\<exists>row. row \<in> set ?out \<and>
      date row = 19753 \<and> factor_code row = ''A1_REAL_YIELD'' \<and>
      score row = 432 / 1000 * (4 / 5) \<and> intensity row = 432 / 1000 * (4 / 5)"
    by blast
  from rb vb have eb: "\<exists>row. row \<in> set ?out \<and>
      date row = 19753 \<and> factor_code row = ''B9_OTHER'' \<and>
      score row = - (432 / 1000 * (1 / 2)) \<and> intensity row = 432 / 1000 * (1 / 2)"
    by blast
  from ca cb ea eb show ?thesis by blast
qed

text \<open>
  Claim C3 (the code differs). The event\_count of a group is the number of its records,
  one per contributing tag, not the number of distinct contributing events: the single
  event below has two tags naming the same factor, and its group gets event\_count 2.
\<close>

theorem event_count_counts_tag_rows:
  "aggregate_factor_scores_by_day example_to_date example_config [double_tag_event] =
     [\<lparr> date = 19753, factor_code = ''A1_REAL_YIELD'', score = 0,
        intensity = 432 / 625, event_count = 2 \<rparr>]"
  by (simp add: aggregate_factor_scores_by_day_def event_records_def double_tag_score
      example_event_sel example_records example_to_date_def groupby_agg_def group_keys_def
      group_of_def Let_def)

section \<open>The dense series\<close>

subsection \<open>The labels of the range\<close>









subsection \<open>The rows of the series\<close>











lemma example_range: "[0..2] = [0, 1, 2::int]"
  by (simp add: upto.simps)


text \<open>With tz-aware ends (the zone is only a name here) no label equals the tz-naive
  midnight of a row, and the values of the daily table do not reach the series.\<close>

lemma example_dense_tz_aware:
  "create_factor_timeseries example_daily
     \<lparr> tz = Some ''America/New_York'', wall = 19752 \<rparr>
     \<lparr> tz = Some ''America/New_York'', wall = 19754 \<rparr> =
     Inr [zero_row \<lparr> tz = Some ''America/New_York'', wall = 19752 \<rparr> ''A1_REAL_YIELD'',
          zero_row \<lparr> tz = Some ''America/New_York'', wall = 19753 \<rparr> ''A1_REAL_YIELD'',
          zero_row \<lparr> tz = Some ''America/New_York'', wall = 19754 \<rparr> ''A1_REAL_YIELD'']"
  by (simp add: create_factor_timeseries_def date_range_def midnight_def example_daily_def
      example_range reindex_factor_def zero_row_def)




section \<open>The alignment with the price\<close>

lemma truncate_with_price: "factor_row.truncate (with_price r p) = r"
  by (simp add: with_price_def factor_row.truncate_def factor_row.extend_def)

lemma filter_distinct_key:
  assumes "distinct (map p_date price_data)"
  shows "length (filter (\<lambda>p. p_date p = d) price_data) \<le> 1"
  using assms by (induction price_data) (auto simp: filter_empty_conv image_iff)

lemma merge_left_distinct:
  assumes "distinct (map p_date price_data)"
  shows "merge_left factor_ts price_data =
           map (\<lambda>r. with_price r (price_on price_data (date r))) factor_ts"
proof -
  have one: "(case filter (\<lambda>p. p_date p = d) price_data of
                [] \<Rightarrow> [with_price r None]
              | ms \<Rightarrow> map (\<lambda>p. with_price r (p_gold_price p)) ms) =
             [with_price r (price_on price_data d)]" for r d
  proof (cases "filter (\<lambda>p. p_date p = d) price_data")
    case Nil
    then have "find (\<lambda>p. p_date p = d) price_data = None"
      by (simp add: find_None_iff filter_empty_conv)
    with Nil show ?thesis by (simp add: price_on_def)
  next
    case (Cons p ps)
    with filter_distinct_key[OF assms, of d] have ps: "ps = []" by simp
    have "find (\<lambda>p. p_date p = d) price_data = Some p"
      using Cons by (induction price_data) (auto split: if_splits)
    with Cons ps show ?thesis by (simp add: price_on_def)
  qed
  show ?thesis by (induction factor_ts) (simp_all add: merge_left_def one)
qed

lemma length_ffill: "length (ffill l xs) = length xs"
  by (induction l xs rule: ffill.induct) simp_all

lemma truncate_ffill_gold_price:
  "map factor_row.truncate (ffill_gold_price rows) = map factor_row.truncate rows"
proof -
  have "map factor_row.truncate (map (\<lambda>(r, p). r\<lparr>gold_price := p\<rparr>) (zip rows ps))
        = map factor_row.truncate rows" if "length ps = length rows" for ps :: "rat option list"
    using that
    by (induction rows ps rule: list_induct2') (simp_all add: factor_row.truncate_def)
  then show ?thesis by (simp add: ffill_gold_price_def length_ffill)
qed

lemma gold_price_ffill_gold_price:
  "map gold_price (ffill_gold_price rows) = ffill None (map gold_price rows)"
proof -
  have "map gold_price (map (\<lambda>(r, p). r\<lparr>gold_price := p\<rparr>) (zip rows ps)) = ps"
    if "length ps = length rows" for ps :: "rat option list"
    using that by (induction rows ps rule: list_induct2') simp_all
  then show ?thesis by (simp add: ffill_gold_price_def length_ffill)
qed

lemma truncate_group_pct_change:
  "map factor_row.truncate (group_pct_change prev rows) = map factor_row.truncate rows"
  by (induction rows arbitrary: prev) (simp_all add: factor_row.truncate_def)

lemma gold_price_group_pct_change:
  "map gold_price (group_pct_change prev rows) = map gold_price rows"
  by (induction rows arbitrary: prev) simp_all

lemma ffill_unmatched:
  assumes "i < length xs" "xs ! i = None"
  shows "ffill l xs ! i = (if i = 0 then l else ffill l xs ! (i - 1))"
  using assms
proof (induction l xs arbitrary: i rule: ffill.induct)
  case (1 last_seen)
  then show ?case by simp
next
  case (2 last_seen xs)
  then show ?case by (cases i) (auto simp: nth_Cons')
next
  case (3 last_seen v xs)
  then show ?case by (cases i) (auto simp: nth_Cons')
qed

text \<open>
  Claim C2 (the code differs). The forward fill runs down the whole gold\_price column, and
  the table holds the factors one after the other: the first row of the second factor
  follows the last row of the first. With a price known from day 2 only, the row of factor
  B on day 1 gets the price of day 2, carried over from factor A; only the row of factor A
  on day 1 stays without a price.
\<close>

theorem align_ffill_crosses_factors:
  "map (\<lambda>r. (factor_code r, date r, gold_price r))
     (align_with_price two_factor_series price_from_day_2)
   = [(''A'', 1, None), (''A'', 2, Some 2000), (''B'', 1, Some 2000), (''B'', 2, Some 2000)]"
  by (simp add: align_with_price_def two_factor_series_def price_from_day_2_def zero_row_def
      merge_left_def with_price_def ffill_gold_price_def factor_row.extend_def
      aligned_row.fields_def)


lemma ffill_known:
  assumes "i < length xs" "xs ! i = Some v"
  shows "ffill l xs ! i = Some v"
  using assms
proof (induction l xs arbitrary: i rule: ffill.induct)
  case (1 last_seen)
  then show ?case by simp
next
  case (2 last_seen xs)
  then show ?case by (cases i) auto
next
  case (3 last_seen w xs)
  then show ?case by (cases i) auto
qed

lemma price_on_matched:
  assumes "distinct (map p_date price_data)" "p \<in> set price_data"
  shows "price_on price_data (p_date p) = p_gold_price p"
proof -
  have "find (\<lambda>q. p_date q = p_date p) price_data = Some p"
    using assms by (induction price_data) (auto simp: image_iff)
  then show ?thesis by (simp add: price_on_def)
qed

lemma price_on_unmatched:
  assumes "d \<notin> p_date ` set price_data"
  shows "price_on price_data d = None"
proof -
  have "find (\<lambda>p. p_date p = d) price_data = None"
    using assms unfolding find_None_iff by (metis imageI)
  then show ?thesis by (simp add: price_on_def)
qed

lemma gold_price_with_price: "gold_price (with_price r p) = p"
  by (simp add: with_price_def factor_row.extend_def aligned_row.fields_def)

text \<open>Claim C4 as stated fails for the empty price table: every row is dropped.\<close>

theorem align_empty_price_counterexample:
  "length (align_with_price [zero_row (1::int) ''A''] []) \<noteq> length [zero_row (1::int) ''A'']"
  by (simp add: align_with_price_def)

text \<open>
  Claim C4, amended. With an empty price table the result is the empty table. With a
  non-empty price table in which no date occurs twice, the join and the result have
  exactly the rows of the dense series, in their order and with their five columns
  unchanged: no row is dropped and none is doubled. The join gives a row whose date is in
  the price table the price of that date, and a row whose date is not in it a missing
  price. In the result, after the forward fill, a row whose date has a price in the price
  table carries that price; a row whose date is not in the price table is without a price
  when it is the first row of the table, and carries the price of the row before it when
  that row is of the same factor.
\<close>

theorem align_with_price_left_join:
  "align_with_price factor_ts [] = [] \<and>
   (price_data \<noteq> [] \<longrightarrow> distinct (map p_date price_data) \<longrightarrow>
      map factor_row.truncate (merge_left factor_ts price_data) = factor_ts \<and>
      map factor_row.truncate (align_with_price factor_ts price_data) = factor_ts \<and>
      (\<forall>i < length factor_ts.
         (\<forall>p \<in> set price_data. p_date p = date (factor_ts ! i) \<longrightarrow>
            gold_price (merge_left factor_ts price_data ! i) = p_gold_price p \<and>
            (p_gold_price p \<noteq> None \<longrightarrow>
               gold_price (align_with_price factor_ts price_data ! i) = p_gold_price p)) \<and>
         (date (factor_ts ! i) \<notin> p_date ` set price_data \<longrightarrow>
            gold_price (merge_left factor_ts price_data ! i) = None \<and>
            (i = 0 \<longrightarrow> gold_price (align_with_price factor_ts price_data ! i) = None) \<and>
            (0 < i \<and> factor_code (factor_ts ! (i - 1)) = factor_code (factor_ts ! i) \<longrightarrow>
               gold_price (align_with_price factor_ts price_data ! i) =
                 gold_price (align_with_price factor_ts price_data ! (i - 1))))))"
proof (intro conjI impI)
  show "align_with_price factor_ts [] = []" by (simp add: align_with_price_def)
next
  assume ne: "price_data \<noteq> []" and dist: "distinct (map p_date price_data)"
  let ?xs = "map (\<lambda>r. price_on price_data (date r)) factor_ts"
  let ?m = "map (\<lambda>r. with_price r (price_on price_data (date r))) factor_ts"
  let ?out = "align_with_price factor_ts price_data"
  have ml: "merge_left factor_ts price_data = ?m"
    by (rule merge_left_distinct[OF dist])
  have al: "?out = group_pct_change (\<lambda>f. None) (ffill_gold_price ?m)"
    using ne by (cases "factor_ts = []")
      (simp_all add: align_with_price_def ml ffill_gold_price_def)
  show trm: "map factor_row.truncate (merge_left factor_ts price_data) = factor_ts"
    unfolding ml by (simp add: comp_def truncate_with_price)
  show tr: "map factor_row.truncate ?out = factor_ts"
    unfolding al
    by (simp add: truncate_group_pct_change truncate_ffill_gold_price comp_def truncate_with_price)
  have gp: "map gold_price ?out = ffill None ?xs"
    unfolding al
    by (simp add: gold_price_group_pct_change gold_price_ffill_gold_price comp_def
        gold_price_with_price)
  have len: "length ?out = length factor_ts"
    using arg_cong[OF tr, of length] by simp
  have nth: "gold_price (?out ! j) = ffill None ?xs ! j" if "j < length factor_ts" for j
    using that arg_cong[OF gp, of "\<lambda>l. l ! j"] len by (simp add: nth_map)
  have mnth: "gold_price (merge_left factor_ts price_data ! j) = ?xs ! j"
    if "j < length factor_ts" for j
    using that unfolding ml by (simp add: gold_price_with_price)
  show "\<forall>i < length factor_ts.
         (\<forall>p \<in> set price_data. p_date p = date (factor_ts ! i) \<longrightarrow>
            gold_price (merge_left factor_ts price_data ! i) = p_gold_price p \<and>
            (p_gold_price p \<noteq> None \<longrightarrow> gold_price (?out ! i) = p_gold_price p)) \<and>
         (date (factor_ts ! i) \<notin> p_date ` set price_data \<longrightarrow>
            gold_price (merge_left factor_ts price_data ! i) = None \<and>
            (i = 0 \<longrightarrow> gold_price (?out ! i) = None) \<and>
            (0 < i \<and> factor_code (factor_ts ! (i - 1)) = factor_code (factor_ts ! i) \<longrightarrow>
               gold_price (?out ! i) = gold_price (?out ! (i - 1))))"
  proof (intro allI impI conjI ballI)
    fix i p
    assume i: "i < length factor_ts" and p: "p \<in> set price_data"
      and d: "p_date p = date (factor_ts ! i)"
    have x: "?xs ! i = p_gold_price p"
      using i price_on_matched[OF dist p] d by simp
    show "gold_price (merge_left factor_ts price_data ! i) = p_gold_price p"
      using mnth[OF i] x by simp
    assume "p_gold_price p \<noteq> None"
    then obtain v where v: "p_gold_price p = Some v" by auto
    have "ffill None ?xs ! i = Some v"
      by (rule ffill_known) (use i x v in simp_all)
    then show "gold_price (?out ! i) = p_gold_price p"
      using nth[OF i] v by simp
  next
    fix i
    assume i: "i < length factor_ts"
      and un: "date (factor_ts ! i) \<notin> p_date ` set price_data"
    have none: "?xs ! i = None"
      using i price_on_unmatched[OF un] by simp
    show "gold_price (merge_left factor_ts price_data ! i) = None"
      using mnth[OF i] none by simp
    have step: "ffill None ?xs ! i = (if i = 0 then None else ffill None ?xs ! (i - 1))"
      using ffill_unmatched[of i ?xs None] i none by simp
    {
      assume "i = 0"
      then show "gold_price (?out ! i) = None"
        using step nth[OF i] by simp
    }
    {
      assume "0 < i \<and> factor_code (factor_ts ! (i - 1)) = factor_code (factor_ts ! i)"
      then have "0 < i" by simp
      then show "gold_price (?out ! i) = gold_price (?out ! (i - 1))"
        using step nth[OF i] nth[of "i - 1"] i by simp
    }
  qed
qed

text \<open>One factor over the days 1 to 3 against the price table that knows day 2 only: the
  three rows are kept; the row of day 1, the first of the table, is without a price; the
  row of day 2 carries the price of day 2; the row of day 3 carries that of the row of
  day 2, a row of its own factor.\<close>

theorem align_with_price_left_join_witness:
  "price_from_day_2 \<noteq> [] \<and> distinct (map p_date price_from_day_2) \<and>
   length one_factor_series = 3 \<and>
   map factor_row.truncate (align_with_price one_factor_series price_from_day_2)
     = one_factor_series \<and>
   date (one_factor_series ! 0) \<notin> p_date ` set price_from_day_2 \<and>
   gold_price (merge_left one_factor_series price_from_day_2 ! 0) = None \<and>
   gold_price (align_with_price one_factor_series price_from_day_2 ! 0) = None \<and>
   hd price_from_day_2 \<in> set price_from_day_2 \<and>
   p_date (hd price_from_day_2) = date (one_factor_series ! 1) \<and>
   p_gold_price (hd price_from_day_2) = Some 2000 \<and>
   gold_price (merge_left one_factor_series price_from_day_2 ! 1) = Some 2000 \<and>
   gold_price (align_with_price one_factor_series price_from_day_2 ! 1) = Some 2000 \<and>
   date (one_factor_series ! 2) \<notin> p_date ` set price_from_day_2 \<and>
   factor_code (one_factor_series ! 1) = factor_code (one_factor_series ! 2) \<and>
   gold_price (align_with_price one_factor_series price_from_day_2 ! 2) = Some 2000"
proof -
  let ?out = "align_with_price one_factor_series price_from_day_2"
  let ?join = "merge_left one_factor_series price_from_day_2"
  have h: "price_from_day_2 \<noteq> []" "distinct (map p_date price_from_day_2)"
    by (simp_all add: price_from_day_2_def)
  have l: "length one_factor_series = 3"
    by (simp add: one_factor_series_def)
  have r0: "date (one_factor_series ! 0) \<notin> p_date ` set price_from_day_2"
    and r1: "hd price_from_day_2 \<in> set price_from_day_2"
      "p_date (hd price_from_day_2) = date (one_factor_series ! 1)"
      "p_gold_price (hd price_from_day_2) = Some 2000"
    and r2: "date (one_factor_series ! 2) \<notin> p_date ` set price_from_day_2"
      "factor_code (one_factor_series ! 1) = factor_code (one_factor_series ! 2)"
    by (simp_all add: one_factor_series_def price_from_day_2_def zero_row_def)
  note inst = align_with_price_left_join[of one_factor_series price_from_day_2,
      THEN conjunct2, THEN mp, THEN mp, OF h]
  have tr: "map factor_row.truncate ?out = one_factor_series"
    by (rule inst[THEN conjunct2, THEN conjunct1])
  have rows: "\<forall>i < length one_factor_series.
         (\<forall>p \<in> set price_from_day_2. p_date p = date (one_factor_series ! i) \<longrightarrow>
            gold_price (?join ! i) = p_gold_price p \<and>
            (p_gold_price p \<noteq> None \<longrightarrow> gold_price (?out ! i) = p_gold_price p)) \<and>
         (date (one_factor_series ! i) \<notin> p_date ` set price_from_day_2 \<longrightarrow>
            gold_price (?join ! i) = None \<and>
            (i = 0 \<longrightarrow> gold_price (?out ! i) = None) \<and>
            (0 < i \<and> factor_code (one_factor_series ! (i - 1)) = factor_code (one_factor_series ! i) \<longrightarrow>
               gold_price (?out ! i) = gold_price (?out ! (i - 1))))"
    by (rule inst[THEN conjunct2, THEN conjunct2])
  from rows[rule_format, of 0] l r0
  have v0: "gold_price (?join ! 0) = None" "gold_price (?out ! 0) = None"
    by simp_all
  from rows[rule_format, of 1] l r1
  have v1: "gold_price (?join ! 1) = Some 2000" "gold_price (?out ! 1) = Some 2000"
    by simp_all
  from rows[rule_format, of 2] l r2 v1
  have v2: "gold_price (?out ! 2) = Some 2000"
    by simp
  from h l tr r0 r1 r2 v0 v1 v2 show ?thesis by blast
qed

section \<open>The influence curve\<close>

lemma rolling_sum_nonneg:
  assumes "\<forall>x \<in> set xs. 0 \<le> x" "y \<in> set (rolling_sum w xs)"
  shows "0 \<le> y"
proof -
  from assms(2) obtain i where "y = sum_list (drop (Suc i - w) (take (Suc i) xs))"
    by (auto simp: rolling_sum_def)
  moreover have "\<forall>x \<in> set (drop (Suc i - w) (take (Suc i) xs)). 0 \<le> x" for i
    using assms(1) by (meson in_set_dropD in_set_takeD)
  ultimately show ?thesis by (simp add: sum_list_nonneg)
qed

lemma factor_rolling_nonneg:
  assumes "\<forall>r \<in> set aligned_data. 0 \<le> intensity r"
    and "p \<in> set (factor_rolling aligned_data w f)"
  shows "0 \<le> snd p"
proof -
  let ?fd = "sort_key date (filter (\<lambda>r. factor_code r = f) aligned_data)"
  have nn: "\<forall>x \<in> set (map intensity ?fd). 0 \<le> x" using assms(1) by auto
  have "(fst p, snd p) \<in> set (zip ?fd (rolling_sum w (map intensity ?fd)))"
    using assms(2) by (simp add: factor_rolling_def Let_def)
  then have "snd p \<in> set (rolling_sum w (map intensity ?fd))"
    by (rule set_zip_rightD)
  with nn show ?thesis by (rule rolling_sum_nonneg)
qed

lemma daily_total_nonneg:
  assumes "\<forall>p \<in> set combined. 0 \<le> snd p"
  shows "0 \<le> daily_total combined d"
  unfolding daily_total_def using assms by (intro sum_list_nonneg) auto

lemma filter_to_influence_row:
  "filter (\<lambda>r. ic_date r = d) (map (to_influence_row combined) ps) =
   map (to_influence_row combined) (filter (\<lambda>p. date (fst p) = d) ps)"
  by (induction ps) (simp_all add: to_influence_row_def)

lemma rolling_total_map:
  "rolling_total (map (to_influence_row combined) combined) d = daily_total combined d"
  by (simp add: rolling_total_def daily_total_def filter_to_influence_row comp_def
      to_influence_row_def case_prod_unfold)

lemma influence_total_map:
  "influence_total (map (to_influence_row combined) combined) d =
     daily_total combined d / (daily_total combined d + 1 / 10 ^ 6)"
proof -
  let ?ps = "filter (\<lambda>p. date (fst p) = d) combined"
  have eq: "map (normalized_influence \<circ> to_influence_row combined) ?ps
      = map (\<lambda>p. snd p / (daily_total combined d + 1 / 10 ^ 6)) ?ps"
    by (rule map_cong) (simp_all add: to_influence_row_def)
  have "influence_total (map (to_influence_row combined) combined) d =
          sum_list (map (normalized_influence \<circ> to_influence_row combined) ?ps)"
    by (simp add: influence_total_def filter_to_influence_row)
  also have "\<dots> = sum_list (map snd ?ps) / (daily_total combined d + 1 / 10 ^ 6)"
    unfolding eq by (rule sum_list_divide)
  also have "sum_list (map snd ?ps) = daily_total combined d"
    by (simp add: daily_total_def case_prod_unfold)
  finally show ?thesis .
qed

lemma curve_eq:
  assumes "aligned_data \<noteq> []" "1 \<le> window_days"
  shows "calculate_factor_influence_curve aligned_data window_days =
     Inr (map (to_influence_row (concat (map (factor_rolling aligned_data (nat window_days))
                                 (unique (map factor_code aligned_data)))))
            (concat (map (factor_rolling aligned_data (nat window_days))
                                 (unique (map factor_code aligned_data)))))"
  using assms
  by (simp add: calculate_factor_influence_curve_def Let_def to_influence_row_def case_prod_unfold)

lemma near_one_iff:
  fixes T :: rat
  assumes "0 \<le> T"
  shows "\<bar>T / (T + 1 / 10 ^ 6) - 1\<bar> \<le> 1 / 10 ^ 4 \<longleftrightarrow> 9999 / 10 ^ 6 \<le> T"
proof -
  have pos: "0 < T + 1 / 10 ^ 6" using assms by simp
  have "T / (T + 1 / 10 ^ 6) - 1 = - (1 / 10 ^ 6) / (T + 1 / 10 ^ 6)"
    using pos by (simp add: field_simps)
  then have "\<bar>T / (T + 1 / 10 ^ 6) - 1\<bar> = (1 / 10 ^ 6) / (T + 1 / 10 ^ 6)"
    using pos by simp
  then show ?thesis using pos by (simp add: field_simps)
qed

lemma two_factor_day_curve:
  "\<exists>curve. calculate_factor_influence_curve two_factor_day 7 = Inr curve \<and>
      1 \<in> ic_date ` set curve \<and> rolling_total curve 1 = 557 / 1250"
  by (simp add: calculate_factor_influence_curve_def two_factor_day_def factor_rolling_def
      rolling_sum_def daily_total_def rolling_total_def Let_def)

text \<open>Claim C1 as stated fails: on the day of the table below the only factor has the
  rolling intensity 0.0005, and the normalised influences of the day sum to 500 / 501,
  which is short of 1 by more than 0.0001.\<close>

theorem normalized_influence_sum_counterexample:
  "\<exists>curve. calculate_factor_influence_curve tiny_day 7 = Inr curve \<and>
      1 \<in> ic_date ` set curve \<and>
      (\<exists>r \<in> set curve. ic_date r = 1 \<and> rolling_intensity r \<noteq> 0) \<and>
      influence_total curve 1 = 500 / 501 \<and>
      \<not> \<bar>influence_total curve 1 - 1\<bar> \<le> 1 / 10 ^ 4"
  by (simp add: calculate_factor_influence_curve_def tiny_day_def factor_rolling_def
      rolling_sum_def daily_total_def influence_total_def Let_def)

text \<open>
  Claim C1, amended. For an aligned table whose intensities are not negative (as the
  aggregation's are) and a window of at least one day, the call returns a curve, and on
  every date of the curve, with \<open>T\<close> the sum of the rolling intensities of the date,
  \<open>T\<close> is not negative, the normalised influences sum to \<open>T / (T + 1e-6)\<close>, and this sum
  is within 1e-4 of 1 exactly when \<open>T\<close> is at least 0.009999.
\<close>

theorem normalized_influence_sum:
  assumes "\<forall>r \<in> set aligned_data. 0 \<le> intensity r" and "1 \<le> window_days"
  shows "\<exists>curve. calculate_factor_influence_curve aligned_data window_days = Inr curve \<and>
           (\<forall>d \<in> ic_date ` set curve.
              0 \<le> rolling_total curve d \<and>
              influence_total curve d =
                rolling_total curve d / (rolling_total curve d + 1 / 10 ^ 6) \<and>
              (\<bar>influence_total curve d - 1\<bar> \<le> 1 / 10 ^ 4
                 \<longleftrightarrow> 9999 / 10 ^ 6 \<le> rolling_total curve d))"
proof (cases "aligned_data = []")
  case True
  then show ?thesis by (simp add: calculate_factor_influence_curve_def)
next
  case False
  let ?c = "concat (map (factor_rolling aligned_data (nat window_days))
                                 (unique (map factor_code aligned_data)))"
  let ?curve = "map (to_influence_row ?c) ?c"
  have res: "calculate_factor_influence_curve aligned_data window_days = Inr ?curve"
    by (rule curve_eq[OF False assms(2)])
  have nn: "\<forall>p \<in> set ?c. 0 \<le> snd p"
    using factor_rolling_nonneg[OF assms(1)] by auto
  have "0 \<le> rolling_total ?curve d \<and>
        influence_total ?curve d =
          rolling_total ?curve d / (rolling_total ?curve d + 1 / 10 ^ 6) \<and>
        (\<bar>influence_total ?curve d - 1\<bar> \<le> 1 / 10 ^ 4
           \<longleftrightarrow> 9999 / 10 ^ 6 \<le> rolling_total ?curve d)" for d
    unfolding rolling_total_map influence_total_map
    using daily_total_nonneg[OF nn, of d] near_one_iff[of "daily_total ?c d"] by simp
  with res show ?thesis by blast
qed

text \<open>Two factors of intensity 0.3456 and 0.1 on one day: the total 0.4456 is above
  the threshold, and the influences of the day sum to 1 within the tolerance.\<close>

theorem normalized_influence_sum_witness:
  "map intensity two_factor_day = [216 / 625, 1 / 10] \<and> (1::int) \<le> 7 \<and>
   (\<exists>curve. calculate_factor_influence_curve two_factor_day 7 = Inr curve \<and>
      1 \<in> ic_date ` set curve \<and>
      rolling_total curve 1 = 557 / 1250 \<and>
      influence_total curve 1 = rolling_total curve 1 / (rolling_total curve 1 + 1 / 10 ^ 6) \<and>
      \<bar>influence_total curve 1 - 1\<bar> \<le> 1 / 10 ^ 4)"
proof -
  have h1: "\<forall>r \<in> set two_factor_day. 0 \<le> intensity r"
    by (simp add: two_factor_day_def)
  have h0: "map intensity two_factor_day = [216 / 625, 1 / 10]"
    by (simp add: two_factor_day_def)
  have h2: "(1::int) \<le> 7" by simp
  from normalized_influence_sum[OF h1 h2] obtain curve where
    c: "calculate_factor_influence_curve two_factor_day 7 = Inr curve" and
    p: "\<forall>d \<in> ic_date ` set curve.
              0 \<le> rolling_total curve d \<and>
              influence_total curve d =
                rolling_total curve d / (rolling_total curve d + 1 / 10 ^ 6) \<and>
              (\<bar>influence_total curve d - 1\<bar> \<le> 1 / 10 ^ 4
                 \<longleftrightarrow> 9999 / 10 ^ 6 \<le> rolling_total curve d)"
    by blast
  from two_factor_day_curve c have
    m: "1 \<in> ic_date ` set curve" and t: "rolling_total curve 1 = 557 / 1250"
    by auto
  from t have big: "9999 / 10 ^ 6 \<le> rolling_total curve 1" by simp
  from p m have
    "influence_total curve 1 = rolling_total curve 1 / (rolling_total curve 1 + 1 / 10 ^ 6)"
    and "\<bar>influence_total curve 1 - 1\<bar> \<le> 1 / 10 ^ 4 \<longleftrightarrow> 9999 / 10 ^ 6 \<le> rolling_total curve 1"
    by blast+
  with big h0 h2 c m t show ?thesis by blast
qed

end
